theory Spec2Isabelle
  imports Complex_Main "HOL-Library.Word"
begin

unbundle bit_operations_syntax

section \<open>Frame decoder: \<open>SpikerStream.process_data\<close>\<close>

text \<open>
  \<^verbatim>\<open>
  result = []
  i = 1
  while i < (len(data) - 1):
      if data[i] > 127:
          intout = (np.bitwise_and(data[i], 127)) * 128
          i += 1
          intout = intout + data[i]
          result = np.append(result, intout)
      i += 1
  return result
  \<close>
  The data are the integers of the bytes read from the serial port. The loop is the
  recursive function below: \<open>i\<close> is the loop index and \<open>result\<close> the samples appended so
  far. Both reads \<open>data[i]\<close> are in range under the loop condition, so no read of the
  source can raise.
\<close>

function process_data_loop :: "int list \<Rightarrow> nat \<Rightarrow> int list \<Rightarrow> int list" where
  "process_data_loop data i result =
     (if int i < int (length data) - 1 then
        (if data ! i > 127 then
           process_data_loop data (i + 1 + 1)
             (result @ [(data ! i AND 127) * 128 + data ! (i + 1)])
         else process_data_loop data (i + 1) result)
      else result)"
  by pat_completeness auto
termination
  by (relation "measure (\<lambda>(data, i, result). length data - i)") auto

declare process_data_loop.simps [simp del]

definition process_data :: "int list \<Rightarrow> int list" where
  "process_data data = process_data_loop data 1 []"

text \<open>
  The decoder as the specification words it: a scan over the bytes that follow the first
  one, in which a byte above 127 that has a successor yields one sample and takes its
  successor with it, every other byte is passed over, and the last byte is never looked
  at as a marker.
\<close>

fun frames :: "int list \<Rightarrow> int list" where
  "frames (b # n # rest) =
     (if b > 127 then ((b AND 127) * 128 + n) # frames rest else frames (n # rest))"
| "frames [b] = []"
| "frames [] = []"

section \<open>Python slices\<close>

text \<open>
  \<open>xs[lo:hi]\<close> and \<open>xs[lo:]\<close> never raise: a negative bound counts from the end, and
  every bound is clamped to the range from 0 to the length.
\<close>

definition slice_index :: "nat \<Rightarrow> int \<Rightarrow> nat" where
  "slice_index n i = (if i < 0 then nat (max 0 (int n + i)) else min (nat i) n)"

definition py_slice :: "'a list \<Rightarrow> int \<Rightarrow> int \<Rightarrow> 'a list" where
  "py_slice xs lo hi =
     (let l = slice_index (length xs) lo; h = slice_index (length xs) hi
      in take (h - l) (drop l xs))"

definition py_slice_from :: "'a list \<Rightarrow> int \<Rightarrow> 'a list" where
  "py_slice_from xs lo = drop (slice_index (length xs) lo) xs"

section \<open>Effects\<close>

text \<open>
  What a call does besides returning is kept as a list of events, in the order of the
  source: a call of \<open>self.stream.update()\<close>, an attempt to classify a window (the branch
  of \<open>process_input\<close> that smooths, extracts features and predicts), and a \<open>print\<close>.
\<close>

datatype event = StreamUpdate | Classify "real list" | Print string

datatype error = ValueError | LibraryError

section \<open>Input streams\<close>

text \<open>
  \<open>InputStream\<close> holds \<open>chunk\<close>; every subclass sets \<open>buffer_time\<close>. The serial port of
  \<open>SpikerStream\<close> is the list of the bytes still to come: \<open>read(n)\<close> takes up to \<open>n\<close> of
  them, fewer at a timeout. \<open>ArrayStream\<close> and \<open>WAVStream\<close> hold the same fields and the
  same \<open>update\<close>. A sample is a finite double, that is a real number. The streams and
  the window move and count samples and never compute with them, so no rounding is
  involved there; the decoder's integers are doubles exactly.
\<close>

record InputStream =
  chunk :: int
  buffer_time :: real

record SpikerStream = InputStream +
  serial_handle :: "int list"

record ReplayStream = InputStream +
  array :: "real list"
  pointer :: int

definition read_arduino :: "SpikerStream \<Rightarrow> int list \<times> SpikerStream" where
  "read_arduino s =
     (take (nat (chunk s)) (serial_handle s),
      s\<lparr>serial_handle := drop (nat (chunk s)) (serial_handle s)\<rparr>)"

definition SpikerStream_update :: "SpikerStream \<Rightarrow> real list \<times> SpikerStream \<times> event list" where
  "SpikerStream_update s =
     (case read_arduino s of (data, s') \<Rightarrow> (map real_of_int (process_data data), s', []))"

text \<open>
  \<^verbatim>\<open>
  array_slice = self.array[self.pointer:self.pointer + self.chunk]
  self.pointer += self.chunk
  if self.pointer > len(self.array):
      self.pointer = 0
      print("Restarting stream...")
  return array_slice
  \<close>
\<close>

definition ArrayStream_update :: "ReplayStream \<Rightarrow> real list \<times> ReplayStream \<times> event list" where
  "ArrayStream_update s =
     (let array_slice = py_slice (array s) (pointer s) (pointer s + chunk s);
          s1 = s\<lparr>pointer := pointer s + chunk s\<rparr>
      in if pointer s1 > int (length (array s1))
         then (array_slice, s1\<lparr>pointer := 0\<rparr>, [Print ''Restarting stream...''])
         else (array_slice, s1, []))"

definition WAVStream_update :: "ReplayStream \<Rightarrow> real list \<times> ReplayStream \<times> event list" where
  "WAVStream_update s =
     (let array_slice = py_slice (array s) (pointer s) (pointer s + chunk s);
          s1 = s\<lparr>pointer := pointer s + chunk s\<rparr>
      in if pointer s1 > int (length (array s1))
         then (array_slice, s1\<lparr>pointer := 0\<rparr>, [Print ''Restarting stream...''])
         else (array_slice, s1, []))"

datatype stream = Spiker SpikerStream | Array ReplayStream | WAV ReplayStream

fun InputStream_update :: "stream \<Rightarrow> real list \<times> stream \<times> event list" where
  "InputStream_update (Spiker s) =
     (case SpikerStream_update s of (data, s', ev) \<Rightarrow> (data, Spiker s', ev))"
| "InputStream_update (Array s) =
     (case ArrayStream_update s of (data, s', ev) \<Rightarrow> (data, Array s', ev))"
| "InputStream_update (WAV s) =
     (case WAVStream_update s of (data, s', ev) \<Rightarrow> (data, WAV s', ev))"

fun InputStream_buffer_time :: "stream \<Rightarrow> real" where
  "InputStream_buffer_time (Spiker s) = buffer_time s"
| "InputStream_buffer_time (Array s) = buffer_time s"
| "InputStream_buffer_time (WAV s) = buffer_time s"

text \<open>The state after \<open>n\<close> calls of \<open>update\<close>, with everything printed on the way.\<close>

fun ArrayStream_updates :: "nat \<Rightarrow> ReplayStream \<Rightarrow> ReplayStream \<times> event list" where
  "ArrayStream_updates 0 s = (s, [])"
| "ArrayStream_updates (Suc n) s =
     (case ArrayStream_update s of (data, s', ev) \<Rightarrow>
        (case ArrayStream_updates n s' of (s'', ev') \<Rightarrow> (s'', ev @ ev')))"

section \<open>Normalisation: \<open>normalise_signal\<close>\<close>

text \<open>
  \<^verbatim>\<open>
  signal_centre = np.mean(signal)
  standardised_signal = signal - signal_centre
  signal_amplitude = np.max(np.abs(standardised_signal))
  return standardised_signal / signal_amplitude
  \<close>
  The samples are IEEE doubles. A finite double is a real number; \<open>None\<close> stands for a
  value that is not a finite number (\<open>nan\<close> or an infinity). numpy does not compute in
  the reals: every operation rounds its exact result to a double. What the doubles do
  is therefore a parameter of the model, not real arithmetic:
  \<^item> \<open>np_mean\<close> is the double that \<open>np.mean\<close> returns on a non-empty array of finite
    doubles (a rounded sum, divided and rounded again), \<open>None\<close> when it is not finite;
  \<^item> \<open>fl\<close> is the rounding of an exact result to a double, \<open>None\<close> when it overflows.

  The difference and the quotient of two finite doubles are the exact results, rounded;
  \<open>np.abs\<close> and \<open>np.max\<close> are exact. A division by zero does not raise: numpy warns and
  yields \<open>nan\<close> for 0/0 and an infinity otherwise. \<open>np.max\<close> of an empty array raises
  \<open>ValueError\<close>.
\<close>

record numpy =
  np_mean :: "real list \<Rightarrow> real option"
  fl :: "real \<Rightarrow> real option"

text \<open>A finite sample minus the centre: not finite when the centre is not.\<close>

definition np_subtract :: "'z numpy_scheme \<Rightarrow> real \<Rightarrow> real option \<Rightarrow> real option" where
  "np_subtract np x centre = (case centre of None \<Rightarrow> None | Some c \<Rightarrow> fl np (x - c))"

definition np_abs :: "real option \<Rightarrow> real option" where
  "np_abs x = map_option abs x"

text \<open>
  The maximum of a non-empty array of absolute values: not finite as soon as one of them
  is not (\<open>nan\<close> is propagated, an infinity is the largest).
\<close>

definition np_max :: "real option list \<Rightarrow> real option" where
  "np_max xs = (if None \<in> set xs then None else Some (Max (set (map the xs))))"

text \<open>
  A centred sample divided by the amplitude. The amplitude is the largest absolute value
  of the centred samples, so a finite sample meets an amplitude that is not finite only
  when that amplitude is an infinity, and the quotient is then 0; a sample that is not
  finite gives a quotient that is not finite; over the amplitude 0 the quotient is not
  a finite number.
\<close>

definition np_divide :: "'z numpy_scheme \<Rightarrow> real option \<Rightarrow> real option \<Rightarrow> real option" where
  "np_divide np x amplitude =
     (case x of
        None \<Rightarrow> None
      | Some x' \<Rightarrow>
          (case amplitude of
             None \<Rightarrow> Some 0
           | Some d \<Rightarrow> (if d = 0 then None else fl np (x' / d))))"

definition normalise_signal :: "'z numpy_scheme \<Rightarrow> real list \<Rightarrow> error + real option list" where
  "normalise_signal np signal =
     (if signal = [] then Inl ValueError
      else
        let signal_centre = np_mean np signal;
            standardised_signal = map (\<lambda>x. np_subtract np x signal_centre) signal;
            signal_amplitude = np_max (map np_abs standardised_signal)
        in Inr (map (\<lambda>x. np_divide np x signal_amplitude) standardised_signal))"

section \<open>The pipeline: \<open>SpikerBox.process_input\<close>\<close>

text \<open>
  The libraries the pipeline calls are parameters: numpy's doubles (above), \<open>convolve\<close>
  with a box kernel of the given width, \<open>catch22_all\<close> and the loaded model's \<open>predict\<close>.
  Each of the last three may raise.
\<close>

record 'f externals = numpy +
  convolve :: "real list \<Rightarrow> int \<Rightarrow> error + real list"
  catch22_all :: "real option list \<Rightarrow> error + 'f"
  predict :: "'f \<Rightarrow> error + string"

record SpikerBox =
  stream :: stream
  smoothing_flag :: bool
  buffer :: "real list option"
  buffer_size :: int
  buffer_timer :: int

type_synonym controls = "string \<rightharpoonup> int"

definition CONTROL_LEFT :: string where "CONTROL_LEFT = ''LEFT''"
definition CONTROL_RIGHT :: string where "CONTROL_RIGHT = ''RIGHT''"
definition CONTROL_SHOOT :: string where "CONTROL_SHOOT = ''SHOOT''"

text \<open>
  \<^verbatim>\<open>
  if self.buffer is None:
      self.buffer = raw_data
  else:
      if len(self.buffer) > self.buffer_size:
          self.buffer = self.buffer[len(raw_data) + 1:]
      self.buffer = np.concatenate([self.buffer, raw_data])
  \<close>
\<close>

definition trim :: "int \<Rightarrow> real list \<Rightarrow> real list \<Rightarrow> real list" where
  "trim bsize buf raw_data =
     (if int (length buf) > bsize then py_slice_from buf (int (length raw_data) + 1) else buf)"

definition fill_buffer :: "int \<Rightarrow> real list option \<Rightarrow> real list \<Rightarrow> real list" where
  "fill_buffer bsize buf raw_data =
     (case buf of None \<Rightarrow> raw_data | Some b \<Rightarrow> trim bsize b raw_data @ raw_data)"

text \<open>
  \<^verbatim>\<open>
  if self.smoothing_flag:
      smooth_width = len(self.buffer) // 50
      amplitude = convolve(self.buffer, Box1DKernel(smooth_width))
  else:
      amplitude = self.buffer
  features = catch22_all(normalise_signal(amplitude))["values"]
  label = self.model.predict([features])
  \<close>
\<close>

definition classify :: "'f externals \<Rightarrow> bool \<Rightarrow> real list \<Rightarrow> error + string" where
  "classify ext flag buf =
     (case (if flag then convolve ext buf (int (length buf) div 50) else Inr buf) of
        Inl e \<Rightarrow> Inl e
      | Inr amplitude \<Rightarrow>
          (case normalise_signal ext amplitude of
             Inl e \<Rightarrow> Inl e
           | Inr normalised \<Rightarrow>
               (case catch22_all ext normalised of
                  Inl e \<Rightarrow> Inl e
                | Inr features \<Rightarrow> predict ext features)))"

definition window_label :: "'f externals \<Rightarrow> bool \<Rightarrow> int \<Rightarrow> real list \<Rightarrow> error + string" where
  "window_label ext flag bsize buf =
     (if int (length buf) > bsize then classify ext flag buf else Inr ''noise'')"

definition set_controls :: "string \<Rightarrow> controls \<Rightarrow> controls" where
  "set_controls label controls =
     (controls(CONTROL_LEFT \<mapsto> (if label = ''left'' then 1 else 0)))
       (CONTROL_RIGHT \<mapsto> (if label = ''right'' then 1 else 0))"

record outcome =
  box :: SpikerBox
  returned :: "error + controls"
  events :: "event list"

text \<open>
  One call of \<open>process_input\<close>: the state of the object after the call, the controls
  returned (or the exception of a library call, raised before the controls are
  touched), and the events of the call.
\<close>

definition process_input :: "'f externals \<Rightarrow> SpikerBox \<Rightarrow> controls \<Rightarrow> int \<Rightarrow> outcome" where
  "process_input ext sb controls tick =
     (let timer = buffer_timer sb + tick in
      if real_of_int timer / 1000 < InputStream_buffer_time (stream sb) then
        \<lparr>box = sb\<lparr>buffer_timer := timer\<rparr>, returned = Inr controls, events = []\<rparr>
      else
        (case InputStream_update (stream sb) of (raw_data, stream', notices) \<Rightarrow>
           let buf = fill_buffer (buffer_size sb) (buffer sb) raw_data;
               sb' = sb\<lparr>stream := stream', buffer := Some buf, buffer_timer := 0\<rparr>;
               attempt = (if int (length buf) > buffer_size sb then [Classify buf] else [])
           in (case window_label ext (smoothing_flag sb) (buffer_size sb) buf of
                 Inl e \<Rightarrow>
                   \<lparr>box = sb', returned = Inl e,
                    events = StreamUpdate # notices @ attempt\<rparr>
               | Inr label \<Rightarrow>
                   \<lparr>box = sb', returned = Inr (set_controls label controls),
                    events = StreamUpdate # notices @ attempt
                      @ (if label \<noteq> ''noise'' then [Print label] else [])\<rparr>)))"

text \<open>
  Successive calls, one per tick, each given the controls the call before returned; an
  exception ends the sequence.
\<close>

fun process_inputs :: "'f externals \<Rightarrow> SpikerBox \<Rightarrow> controls \<Rightarrow> int list \<Rightarrow> outcome" where
  "process_inputs ext sb controls [] = \<lparr>box = sb, returned = Inr controls, events = []\<rparr>"
| "process_inputs ext sb controls (tick # ticks) =
     (let out = process_input ext sb controls tick
      in case returned out of
           Inl e \<Rightarrow> out
         | Inr controls' \<Rightarrow>
             (let rest = process_inputs ext (box out) controls' ticks
              in rest\<lparr>events := events out @ events rest\<rparr>))"

definition pulls :: "event list \<Rightarrow> nat" where
  "pulls evs = length (filter (\<lambda>e. e = StreamUpdate) evs)"

text \<open>The window after a sequence of pulls, one chunk each.\<close>

fun pull_chunks :: "int \<Rightarrow> real list option \<Rightarrow> real list list \<Rightarrow> real list option" where
  "pull_chunks bsize buf [] = buf"
| "pull_chunks bsize buf (raw_data # chunks) =
     pull_chunks bsize (Some (fill_buffer bsize buf raw_data)) chunks"

text \<open>The windows on which a call attempted a classification, in order.\<close>

fun attempts :: "event list \<Rightarrow> real list list" where
  "attempts [] = []"
| "attempts (Classify w # evs) = w # attempts evs"
| "attempts (e # evs) = attempts evs"

section \<open>A small pipeline\<close>

text \<open>
  Arithmetic without rounding. It is what doubles compute wherever every intermediate
  result is itself a double, as on the windows used below: a few small integers whose
  mean is an integer.
\<close>

definition exact_numpy :: numpy where
  "exact_numpy =
     \<lparr>np_mean = (\<lambda>signal. Some (sum_list signal / real (length signal))), fl = Some\<rparr>"

text \<open>
  A concrete pipeline to run the model on: a replayed recording of seven samples read
  three at a time every 1.5 seconds, a window threshold of 2, that arithmetic, libraries
  that return their input, and a model that always answers \<open>left\<close>.
\<close>

definition example_externals :: "real option list externals" where
  "example_externals =
     \<lparr>np_mean = (\<lambda>signal. Some (sum_list signal / real (length signal))), fl = Some,
      convolve = (\<lambda>buf width. Inr buf), catch22_all = (\<lambda>signal. Inr signal),
      predict = (\<lambda>features. Inr ''left'')\<rparr>"

definition example_box :: SpikerBox where
  "example_box =
     \<lparr>stream = WAV \<lparr>chunk = 3, buffer_time = 3 / 2, array = [1, 2, 3, 4, 5, 6, 7], pointer = 0\<rparr>,
      smoothing_flag = False, buffer = None, buffer_size = 2, buffer_timer = 0\<rparr>"

definition example_controls :: controls where
  "example_controls = [''LEFT'' \<mapsto> 0, ''RIGHT'' \<mapsto> 1, ''SHOOT'' \<mapsto> 1]"

section \<open>The decoder\<close>

lemma process_data_loop_frames:
  "i \<le> length data \<Longrightarrow> process_data_loop data i result = result @ frames (drop i data)"
proof (induction data i result rule: process_data_loop.induct)
  case (1 data i result)
  show ?case
  proof (cases "int i < int (length data) - 1")
    case False
    with "1.prems" have "length (drop i data) \<le> 1" by simp
    then have "frames (drop i data) = []"
      by (cases "drop i data" rule: frames.cases) simp_all
    with False show ?thesis
      by (simp add: process_data_loop.simps [of data i result])
  next
    case True
    then have lt: "Suc i < length data" by linarith
    then have split: "drop i data = data ! i # data ! (i + 1) # drop (i + 1 + 1) data"
      by (simp add: Cons_nth_drop_Suc Suc_lessD)
    show ?thesis
    proof (cases "data ! i > 127")
      case marker: True
      have "process_data_loop data i result =
              process_data_loop data (i + 1 + 1)
                (result @ [(data ! i AND 127) * 128 + data ! (i + 1)])"
        using True marker by (simp add: process_data_loop.simps [of data i result])
      also have "\<dots> = (result @ [(data ! i AND 127) * 128 + data ! (i + 1)])
                        @ frames (drop (i + 1 + 1) data)"
        using "1.IH"(1) [OF True marker] lt by simp
      finally show ?thesis using marker by (simp add: split)
    next
      case other: False
      have "process_data_loop data i result = process_data_loop data (i + 1) result"
        using True other by (simp add: process_data_loop.simps [of data i result])
      also have "\<dots> = result @ frames (drop (i + 1) data)"
        using "1.IH"(2) [OF True other] lt by simp
      also have "drop (i + 1) data = data ! (i + 1) # drop (i + 1 + 1) data"
        using lt by (simp add: Cons_nth_drop_Suc)
      finally show ?thesis
        using other by (simp add: split)
    qed
  qed
qed

text \<open>
  C1. For every byte sequence the decoder returns what the scan of the positions after
  the first returns: one sample \<open>(byte AND 127) * 128 + next byte\<close> for each byte above
  127 met before the last position, both bytes consumed, every other byte skipped. On
  the bytes \<open>0x00, 0x81, 0x05, 0x00\<close> the result is the single sample 133.
\<close>

theorem process_data_decodes:
  "process_data data = frames (drop 1 data)
   \<and> process_data [0, 129, 5, 0] = [133]"
proof -
  have general: "\<And>d. process_data d = frames (drop 1 d)"
  proof -
    fix d :: "int list"
    show "process_data d = frames (drop 1 d)"
    proof (cases d)
      case Nil
      then show ?thesis
        by (simp add: process_data_def process_data_loop.simps [of "[]" "Suc 0" "[]"])
    next
      case (Cons x xs)
      then have "1 \<le> length d" by simp
      from process_data_loop_frames [OF this, of "[]"] show ?thesis
        by (simp add: process_data_def)
    qed
  qed
  have "process_data [0, 129, 5, 0] = frames (drop 1 [0, 129, 5, 0])"
    by (rule general)
  also have "\<dots> = [133]" by simp
  finally show ?thesis using general [of data] by simp
qed

section \<open>Slices\<close>

lemma slice_index_nonneg: "0 \<le> i \<Longrightarrow> slice_index n i = min (nat i) n"
  by (simp add: slice_index_def)

lemma py_slice_take_drop:
  "0 \<le> lo \<Longrightarrow> lo \<le> hi \<Longrightarrow> py_slice xs lo hi = take (nat (hi - lo)) (drop (nat lo) xs)"
  by (cases "nat lo \<le> length xs")
     (auto simp: py_slice_def slice_index_nonneg Let_def min_def nat_diff_distrib take_all_iff)

lemma py_slice_from_drop: "0 \<le> lo \<Longrightarrow> py_slice_from xs lo = drop (nat lo) xs"
  by (simp add: py_slice_from_def slice_index_nonneg min_def)

section \<open>Replay from an array\<close>

lemma ArrayStream_update_law:
  assumes "0 \<le> pointer s" and "pointer s \<le> int (length (array s))" and "0 \<le> chunk s"
  shows "ArrayStream_update s =
           (take (nat (chunk s)) (drop (nat (pointer s)) (array s)),
            s\<lparr>pointer := (if pointer s + chunk s > int (length (array s)) then 0
                           else pointer s + chunk s)\<rparr>,
            (if pointer s + chunk s > int (length (array s))
             then [Print ''Restarting stream...''] else []))"
  using assms by (simp add: ArrayStream_update_def Let_def py_slice_take_drop)

lemma ArrayStream_three_updates:
  assumes "length a = 25"
  shows "ArrayStream_updates 3 \<lparr>chunk = 10, buffer_time = bt, array = a, pointer = 0\<rparr>
           = (\<lparr>chunk = 10, buffer_time = bt, array = a, pointer = 0\<rparr>,
              [Print ''Restarting stream...''])"
  using assms by (simp add: ArrayStream_update_def numeral_3_eq_3 Let_def)

text \<open>
  C4, as stated, fails: the slice is not always \<open>chunk\<close> samples long. With 25 samples,
  \<open>chunk = 10\<close> and the pointer at 20, \<open>update\<close> returns the 5 samples that remain.
\<close>

theorem ArrayStream_update_short_slice:
  "\<not> int (length (fst (ArrayStream_update
        \<lparr>chunk = 10, buffer_time = 1 / 2, array = replicate 25 0, pointer = 20\<rparr>)))
      = chunk \<lparr>chunk = 10, buffer_time = 1 / 2, array = replicate 25 0, pointer = 20\<rparr>"
  by (simp add: ArrayStream_update_def py_slice_def slice_index_def Let_def)

text \<open>
  C4, amended. For every state whose pointer lies within the array and whose \<open>chunk\<close> is
  not negative, \<open>update\<close> returns the slice \<open>array[pointer : pointer + chunk]\<close>: the
  \<open>chunk\<close> samples from the pointer on when that many remain, the shorter remainder
  otherwise. It advances the pointer by \<open>chunk\<close>, and sets it to 0 and prints the restart
  notice exactly when the advanced pointer exceeds the length of the array. The pointer
  stays within the array, so no call reads past the end, and no call raises. Over 25
  samples with \<open>chunk = 10\<close>, three calls from pointer 0 leave the pointer at 0 and print
  the notice exactly once.
\<close>

theorem ArrayStream_update_wraps:
  assumes "0 \<le> pointer s" and "pointer s \<le> int (length (array s))" and "0 \<le> chunk s"
  shows "fst (ArrayStream_update s) = take (nat (chunk s)) (drop (nat (pointer s)) (array s))
    \<and> int (length (fst (ArrayStream_update s)))
        = min (chunk s) (int (length (array s)) - pointer s)
    \<and> fst (snd (ArrayStream_update s)) =
         s\<lparr>pointer := (if pointer s + chunk s > int (length (array s)) then 0
                        else pointer s + chunk s)\<rparr>
    \<and> snd (snd (ArrayStream_update s)) =
         (if pointer s + chunk s > int (length (array s))
          then [Print ''Restarting stream...''] else [])
    \<and> 0 \<le> pointer (fst (snd (ArrayStream_update s)))
    \<and> pointer (fst (snd (ArrayStream_update s)))
        \<le> int (length (array (fst (snd (ArrayStream_update s)))))
    \<and> (length (array s) = 25 \<and> chunk s = 10 \<and> pointer s = 0 \<longrightarrow>
         ArrayStream_updates 3 s = (s, [Print ''Restarting stream...'']))"
proof -
  note law = ArrayStream_update_law [OF assms]
  have three: "length (array s) = 25 \<and> chunk s = 10 \<and> pointer s = 0 \<longrightarrow>
         ArrayStream_updates 3 s = (s, [Print ''Restarting stream...''])"
  proof
    assume h: "length (array s) = 25 \<and> chunk s = 10 \<and> pointer s = 0"
    then have "s = \<lparr>chunk = 10, buffer_time = buffer_time s, array = array s, pointer = 0\<rparr>"
      by simp
    with ArrayStream_three_updates [of "array s" "buffer_time s"] h
    show "ArrayStream_updates 3 s = (s, [Print ''Restarting stream...''])" by simp
  qed
  show ?thesis using assms three by (simp add: law)
qed

theorem ArrayStream_update_wraps_witness:
  "fst (ArrayStream_update
          \<lparr>chunk = 10, buffer_time = 1 / 2, array = replicate 25 0, pointer = 0\<rparr>)
     = replicate 10 0
   \<and> pointer (fst (snd (ArrayStream_update
          \<lparr>chunk = 10, buffer_time = 1 / 2, array = replicate 25 0, pointer = 0\<rparr>))) = 10
   \<and> ArrayStream_updates 3
          \<lparr>chunk = 10, buffer_time = 1 / 2, array = replicate 25 0, pointer = 0\<rparr>
       = (\<lparr>chunk = 10, buffer_time = 1 / 2, array = replicate 25 0, pointer = 0\<rparr>,
          [Print ''Restarting stream...''])"
  using ArrayStream_update_wraps
    [of "\<lparr>chunk = 10, buffer_time = 1 / 2, array = replicate 25 0, pointer = 0\<rparr>"]
  by simp

section \<open>The window\<close>

lemma length_trim:
  "length (trim B w raw) =
     (if int (length w) > B then length w - (length raw + 1) else length w)"
  by (simp add: trim_def py_slice_from_drop nat_add_distrib)

lemma length_fill_buffer_Some:
  "length (fill_buffer B (Some w) raw) =
     (if int (length w) > B then max (length raw) (length w - 1) else length w + length raw)"
  by (auto simp: fill_buffer_def length_trim)

lemma fill_buffer_bound:
  assumes "0 \<le> B" and "int (length w) \<le> B + int n" and "length raw \<le> n"
  shows "int (length (fill_buffer B (Some w) raw)) \<le> B + int n"
  using assms by (auto simp: length_fill_buffer_Some)

lemma pull_chunks_Some_bound:
  assumes "0 \<le> B" and "\<forall>c\<in>set cs. length c \<le> n" and "int (length w0) \<le> B + int n"
    and "pull_chunks B (Some w0) cs = Some w"
  shows "int (length w) \<le> B + int n"
  using assms
proof (induction cs arbitrary: w0)
  case Nil
  then show ?case by simp
next
  case (Cons c cs)
  have "int (length (fill_buffer B (Some w0) c)) \<le> B + int n"
    using Cons.prems by (intro fill_buffer_bound) simp_all
  with Cons show ?case by simp
qed

lemma pull_chunks_bound:
  assumes "0 \<le> B" and "\<forall>c\<in>set cs. length c \<le> n" and "pull_chunks B None cs = Some w"
  shows "int (length w) \<le> B + int n"
proof (cases cs)
  case Nil
  with assms show ?thesis by simp
next
  case (Cons c cs')
  have "int (length (fill_buffer B None c)) \<le> B + int n"
    using assms Cons by (simp add: fill_buffer_def)
  with pull_chunks_Some_bound [of B cs' n "fill_buffer B None c" w] assms Cons
  show ?thesis by simp
qed

text \<open>
  C2, as stated, fails when the chunks differ in length, as they do at the end of a
  replayed array and on a serial port. With \<open>buffer_size = 3\<close>, the chunks
  \<open>[1,2,3]\<close>, \<open>[4,5,6]\<close> and \<open>[7]\<close> (what \<open>update\<close> returns over seven samples with
  \<open>chunk = 3\<close>) give a window of 6 samples before the third pull, within
  \<open>buffer_size + 3\<close>; the trim of the third pull drops \<open>len([7]) + 1 = 2\<close> samples and
  leaves 4, more than \<open>buffer_size\<close>.
\<close>

theorem window_after_trim_exceeds:
  "fst (ArrayStream_update
      \<lparr>chunk = 3, buffer_time = 0, array = [1, 2, 3, 4, 5, 6, 7], pointer = 6\<rparr>) = [7]
   \<and> pull_chunks 3 None [[1, 2, 3], [4, 5, 6]] = Some [1, 2, 3, 4, 5, 6]
   \<and> int (length [1, 2, 3, 4, 5, 6 :: real]) \<le> 3 + 3
   \<and> trim 3 [1, 2, 3, 4, 5, 6] [7] = [3, 4, 5, 6]
   \<and> \<not> int (length (trim 3 [1, 2, 3, 4, 5, 6] [7])) \<le> 3"
  by (simp add: ArrayStream_update_def py_slice_def fill_buffer_def trim_def
      py_slice_from_def slice_index_def Let_def)

text \<open>
  C2, amended. For every sequence of chunk pulls starting from an empty pipeline whose
  \<open>buffer_size\<close> is not negative, with no chunk longer than \<open>chunk_length\<close>: the window is
  at most \<open>buffer_size + chunk_length\<close> long after every pull, hence before each trim; a
  trim for an incoming chunk of exactly \<open>chunk_length\<close> samples leaves at most
  \<open>buffer_size\<close> samples; and no length is negative.
\<close>

theorem window_bounded:
  assumes "0 \<le> B" and "\<forall>c\<in>set cs. length c \<le> n" and "pull_chunks B None cs = Some w"
  shows "int (length w) \<le> B + int n
    \<and> (B < int (length w) \<and> length raw = n \<longrightarrow>
          int (length (py_slice_from w (int (length raw) + 1))) \<le> B)
    \<and> 0 \<le> int (length w)
    \<and> 0 \<le> int (length (py_slice_from w (int (length raw) + 1)))"
proof -
  have b: "int (length w) \<le> B + int n" by (rule pull_chunks_bound [OF assms])
  have t: "B < int (length w) \<and> length raw = n \<longrightarrow>
          int (length (py_slice_from w (int (length raw) + 1))) \<le> B"
  proof
    assume h: "B < int (length w) \<and> length raw = n"
    have "length (py_slice_from w (int (length raw) + 1)) = length w - (length raw + 1)"
      by (simp add: py_slice_from_drop nat_add_distrib)
    with h b assms(1)
    show "int (length (py_slice_from w (int (length raw) + 1))) \<le> B" by linarith
  qed
  have nn: "0 \<le> int (length w) \<and> 0 \<le> int (length (py_slice_from w (int (length raw) + 1)))"
    by simp
  from b t nn show ?thesis by blast
qed

theorem window_bounded_witness:
  "pull_chunks 3 None [[1, 2, 3], [4, 5, 6]] = Some [1, 2, 3, 4, 5, 6]
   \<and> int (length [1, 2, 3, 4, 5, 6 :: real]) \<le> 3 + int 3
   \<and> (3::int) < int (length [1, 2, 3, 4, 5, 6 :: real])
   \<and> int (length (py_slice_from [1, 2, 3, 4, 5, 6 :: real] (int (length [7, 8, 9 :: real]) + 1)))
        \<le> 3"
  using window_bounded [of 3 "[[1, 2, 3], [4, 5, 6]]" 3 "[1, 2, 3, 4, 5, 6]" "[7, 8, 9]"]
  by (simp add: fill_buffer_def trim_def py_slice_from_def slice_index_def)

text \<open>
  C9, as stated, fails when the window is no longer than the chunk: the slice then drops
  the whole window, and the window after the pull is the chunk, as long as before. With
  \<open>buffer_size = 2\<close>, the window \<open>[1,2,3]\<close> and the chunk \<open>[4,5,6]\<close> give \<open>[4,5,6]\<close>.
\<close>

theorem pull_replaces_short_window:
  "(2::int) < int (length [1, 2, 3 :: real])
   \<and> fill_buffer 2 (Some [1, 2, 3]) [4, 5, 6] = [4, 5, 6]
   \<and> \<not> length (fill_buffer 2 (Some [1, 2, 3]) [4, 5, 6]) + 1 = length [1, 2, 3 :: real]"
  by (simp add: fill_buffer_def trim_def py_slice_from_def slice_index_def)

text \<open>
  C9, amended. Whenever the window is longer than \<open>buffer_size\<close> at the start of a pull,
  the pull drops the first \<open>len(chunk) + 1\<close> samples (all of them when the window has no
  more) and appends the chunk. When the window is longer than the chunk its length
  decreases by exactly 1, so such a window shrinks one sample per pull and is not cut
  back to \<open>buffer_size\<close> at once; otherwise the window becomes the chunk.
\<close>

theorem pull_drops_then_appends:
  assumes "B < int (length b)"
  shows "fill_buffer B (Some b) raw = drop (length raw + 1) b @ raw
    \<and> length (fill_buffer B (Some b) raw) = max (length raw) (length b - 1)
    \<and> (length raw < length b \<longrightarrow> length (fill_buffer B (Some b) raw) + 1 = length b)
    \<and> (length b \<le> length raw \<longrightarrow> fill_buffer B (Some b) raw = raw)"
  using assms by (auto simp: fill_buffer_def trim_def py_slice_from_drop nat_add_distrib)

theorem pull_drops_then_appends_witness:
  "(2::int) < int (length [1, 2, 3, 4, 5 :: real])
   \<and> fill_buffer 2 (Some [1, 2, 3, 4, 5]) [6, 7] = [4, 5, 6, 7]
   \<and> length (fill_buffer 2 (Some [1, 2, 3, 4, 5]) [6, 7]) + 1 = length [1, 2, 3, 4, 5 :: real]
   \<and> fill_buffer 2 (Some [1, 2, 3]) [4, 5, 6] = [4, 5, 6]"
  using pull_drops_then_appends [of 2 "[1, 2, 3, 4, 5]" "[6, 7]"]
    pull_drops_then_appends [of 2 "[1, 2, 3]" "[4, 5, 6]"]
  by simp

section \<open>The timer gate\<close>

lemma gate_1500: "(real_of_int t / 1000 < 3 / 2) = (t < 1500)"
  by (simp add: field_simps)

lemma process_input_gated:
  assumes "real_of_int (buffer_timer sb + tick) / 1000 < InputStream_buffer_time (stream sb)"
  shows "process_input ext sb controls tick =
           \<lparr>box = sb\<lparr>buffer_timer := buffer_timer sb + tick\<rparr>,
            returned = Inr controls, events = []\<rparr>"
  using assms by (simp add: process_input_def Let_def)

lemma InputStream_update_notices:
  "snd (snd (InputStream_update st)) = []
   \<or> snd (snd (InputStream_update st)) = [Print ''Restarting stream...'']"
  by (cases st)
     (auto simp: SpikerStream_update_def ArrayStream_update_def WAVStream_update_def
        Let_def split: prod.splits)

lemma pulls_notices: "pulls (snd (snd (InputStream_update st))) = 0"
  using InputStream_update_notices [of st] by (auto simp: pulls_def)

lemma pulls_append: "pulls (xs @ ys) = pulls xs + pulls ys"
  by (simp add: pulls_def)

lemma process_input_pull:
  assumes "\<not> real_of_int (buffer_timer sb + tick) / 1000 < InputStream_buffer_time (stream sb)"
  shows "process_input ext sb controls tick =
    (let raw_data = fst (InputStream_update (stream sb));
         notices = snd (snd (InputStream_update (stream sb)));
         buf = fill_buffer (buffer_size sb) (buffer sb) raw_data;
         sb' = sb\<lparr>stream := fst (snd (InputStream_update (stream sb))),
                  buffer := Some buf, buffer_timer := 0\<rparr>;
         attempt = (if int (length buf) > buffer_size sb then [Classify buf] else [])
     in (case window_label ext (smoothing_flag sb) (buffer_size sb) buf of
           Inl e \<Rightarrow> \<lparr>box = sb', returned = Inl e, events = StreamUpdate # notices @ attempt\<rparr>
         | Inr label \<Rightarrow>
             \<lparr>box = sb', returned = Inr (set_controls label controls),
              events = StreamUpdate # notices @ attempt
                @ (if label \<noteq> ''noise'' then [Print label] else [])\<rparr>))"
proof -
  obtain raw st' ev where u: "InputStream_update (stream sb) = (raw, st', ev)"
    by (cases "InputStream_update (stream sb)") auto
  show ?thesis using assms by (simp add: process_input_def Let_def u)
qed

lemma process_input_pull_once:
  assumes "\<not> real_of_int (buffer_timer sb + tick) / 1000 < InputStream_buffer_time (stream sb)"
  shows "pulls (events (process_input ext sb controls tick)) = 1
    \<and> buffer_timer (box (process_input ext sb controls tick)) = 0
    \<and> stream (box (process_input ext sb controls tick))
        = fst (snd (InputStream_update (stream sb)))
    \<and> buffer (box (process_input ext sb controls tick))
        = Some (fill_buffer (buffer_size sb) (buffer sb) (fst (InputStream_update (stream sb))))"
  using pulls_notices [of "stream sb"]
  by (auto simp: process_input_pull [OF assms] Let_def pulls_append split: sum.splits)
     (simp_all add: pulls_def)

lemma gated_prefix:
  assumes "\<forall>k\<in>{1..length ticks}.
      real_of_int (buffer_timer sb + sum_list (take k ticks)) / 1000
        < InputStream_buffer_time (stream sb)"
  shows "process_inputs ext sb controls (ticks @ rest) =
         process_inputs ext (sb\<lparr>buffer_timer := buffer_timer sb + sum_list ticks\<rparr>) controls rest"
  using assms
proof (induction ticks arbitrary: sb)
  case Nil
  then show ?case by simp
next
  case (Cons t ts)
  have first: "real_of_int (buffer_timer sb + t) / 1000 < InputStream_buffer_time (stream sb)"
    using Cons.prems by (auto dest: bspec [where x = 1])
  let ?sb = "sb\<lparr>buffer_timer := buffer_timer sb + t\<rparr>"
  have later: "\<forall>k\<in>{1..length ts}.
      real_of_int (buffer_timer ?sb + sum_list (take k ts)) / 1000
        < InputStream_buffer_time (stream ?sb)"
  proof
    fix k assume "k \<in> {1..length ts}"
    then have "Suc k \<in> {1..length (t # ts)}" by simp
    from Cons.prems [rule_format, OF this]
    show "real_of_int (buffer_timer ?sb + sum_list (take k ts)) / 1000
        < InputStream_buffer_time (stream ?sb)" by (simp add: add.assoc)
  qed
  from Cons.IH [OF later] show ?case
    by (simp add: process_input_gated [OF first] add.assoc)
qed

text \<open>
  C3. With a \<open>buffer_time\<close> of 1.5 seconds and the timer at 0 (as at construction and
  after every pull): as long as the ticks since then sum to less than 1500 ms, no call
  pulls a chunk and nothing but the timer changes; the first call at which the sum
  reaches 1500 ms pulls exactly one chunk and leaves the timer at 0: it calls
  \<open>update\<close> once, the stream is left in the state one \<open>update\<close> leaves it in, and the
  window is the old window filled with the chunk that \<open>update\<close> returned.
\<close>

theorem gate_pulls_once_at_1500:
  assumes bt: "InputStream_buffer_time (stream sb) = 3 / 2"
    and zero: "buffer_timer sb = 0"
    and below: "\<forall>k\<in>{1..length ticks}. sum_list (take k ticks) < 1500"
    and reach: "1500 \<le> sum_list ticks + tick"
  shows "process_inputs ext sb controls ticks =
           \<lparr>box = sb\<lparr>buffer_timer := sum_list ticks\<rparr>, returned = Inr controls, events = []\<rparr>
    \<and> pulls (events (process_inputs ext sb controls ticks)) = 0
    \<and> pulls (events (process_inputs ext sb controls (ticks @ [tick]))) = 1
    \<and> buffer_timer (box (process_inputs ext sb controls (ticks @ [tick]))) = 0
    \<and> stream (box (process_inputs ext sb controls (ticks @ [tick])))
        = fst (snd (InputStream_update (stream sb)))
    \<and> buffer (box (process_inputs ext sb controls (ticks @ [tick])))
        = Some (fill_buffer (buffer_size sb) (buffer sb) (fst (InputStream_update (stream sb))))"
proof -
  have g: "\<forall>k\<in>{1..length ticks}.
      real_of_int (buffer_timer sb + sum_list (take k ticks)) / 1000
        < InputStream_buffer_time (stream sb)"
    using below by (simp add: bt zero gate_1500)
  let ?sb = "sb\<lparr>buffer_timer := sum_list ticks\<rparr>"
  have quiet: "process_inputs ext sb controls ticks =
           \<lparr>box = ?sb, returned = Inr controls, events = []\<rparr>"
    using gated_prefix [OF g, of ext controls "[]"] by (simp add: zero)
  have ng: "\<not> real_of_int (buffer_timer ?sb + tick) / 1000 < InputStream_buffer_time (stream ?sb)"
    using reach by (simp add: bt gate_1500)
  have last: "process_inputs ext sb controls (ticks @ [tick]) = process_inputs ext ?sb controls [tick]"
    using gated_prefix [OF g, of ext controls "[tick]"] by (simp add: zero)
  have one: "process_inputs ext ?sb controls [tick] =
      (process_input ext ?sb controls tick)\<lparr>events := events (process_input ext ?sb controls tick)\<rparr>"
    by (simp add: Let_def split: sum.splits)
  from process_input_pull_once [OF ng, of ext controls] quiet last one
  show ?thesis by (simp add: pulls_def)
qed

theorem gate_pulls_once_at_1500_witness:
  "pulls (events (process_inputs example_externals example_box example_controls [700, 700])) = 0
   \<and> buffer_timer (box (process_inputs example_externals example_box example_controls [700, 700]))
       = 1400
   \<and> pulls (events (process_inputs example_externals example_box example_controls
       ([700, 700] @ [200]))) = 1
   \<and> buffer_timer (box (process_inputs example_externals example_box example_controls
       ([700, 700] @ [200]))) = 0
   \<and> stream (box (process_inputs example_externals example_box example_controls
       ([700, 700] @ [200])))
       = WAV \<lparr>chunk = 3, buffer_time = 3 / 2, array = [1, 2, 3, 4, 5, 6, 7], pointer = 3\<rparr>
   \<and> buffer (box (process_inputs example_externals example_box example_controls
       ([700, 700] @ [200]))) = Some [1, 2, 3]"
proof -
  have bt: "InputStream_buffer_time (stream example_box) = 3 / 2"
    by (simp add: example_box_def)
  have zero: "buffer_timer example_box = 0"
    by (simp add: example_box_def)
  have below: "\<forall>k\<in>{1..length [700, 700 :: int]}. sum_list (take k [700, 700 :: int]) < 1500"
  proof
    fix k assume "k \<in> {1..length [700, 700 :: int]}"
    then have "k = 1 \<or> k = 2" by auto
    then show "sum_list (take k [700, 700 :: int]) < 1500" by auto
  qed
  have reach: "(1500::int) \<le> sum_list [700, 700] + 200" by simp
  have pull: "InputStream_update (stream example_box) =
      ([1, 2, 3],
       WAV \<lparr>chunk = 3, buffer_time = 3 / 2, array = [1, 2, 3, 4, 5, 6, 7], pointer = 3\<rparr>, [])"
    by (simp add: example_box_def WAVStream_update_def py_slice_def slice_index_def Let_def)
  have window: "fill_buffer (buffer_size example_box) (buffer example_box) [1, 2, 3] = [1, 2, 3]"
    by (simp add: example_box_def fill_buffer_def)
  from gate_pulls_once_at_1500 [OF bt zero below reach, of example_externals example_controls]
  show ?thesis by (simp del: process_inputs.simps add: pulls_def pull window)
qed

section \<open>Gated calls\<close>

text \<open>
  C10. A call that leaves the accumulated timer, divided by 1000, below the source's
  \<open>buffer_time\<close> returns the controls it was given, unchanged, so a flag set to 1 on an
  earlier poll is still 1; it pulls no chunk and causes no event; and the state after
  it is the state before it with the tick added to the timer: stream, window and
  threshold are untouched.
\<close>

theorem gated_call_changes_only_timer:
  assumes "real_of_int (buffer_timer sb + tick) / 1000 < InputStream_buffer_time (stream sb)"
  shows "returned (process_input ext sb controls tick) = Inr controls
    \<and> events (process_input ext sb controls tick) = []
    \<and> box (process_input ext sb controls tick) = sb\<lparr>buffer_timer := buffer_timer sb + tick\<rparr>
    \<and> stream (box (process_input ext sb controls tick)) = stream sb
    \<and> buffer (box (process_input ext sb controls tick)) = buffer sb
    \<and> buffer_size (box (process_input ext sb controls tick)) = buffer_size sb
    \<and> smoothing_flag (box (process_input ext sb controls tick)) = smoothing_flag sb"
  by (simp add: process_input_gated [OF assms])

theorem gated_call_changes_only_timer_witness:
  "returned (process_input example_externals example_box example_controls 700)
     = Inr example_controls
   \<and> example_controls ''RIGHT'' = Some 1
   \<and> events (process_input example_externals example_box example_controls 700) = []
   \<and> box (process_input example_externals example_box example_controls 700)
       = example_box\<lparr>buffer_timer := 700\<rparr>"
  using gated_call_changes_only_timer [of example_box 700 example_externals example_controls]
  by (simp add: example_box_def example_controls_def)

section \<open>Labels and controls\<close>

lemma set_controls_shoot: "set_controls label controls CONTROL_SHOOT = controls CONTROL_SHOOT"
  by (simp add: set_controls_def CONTROL_LEFT_def CONTROL_RIGHT_def CONTROL_SHOOT_def)

lemma attempts_append: "attempts (xs @ ys) = attempts xs @ attempts ys"
  by (induction xs rule: attempts.induct) simp_all

lemma attempts_notices: "attempts (snd (snd (InputStream_update st))) = []"
  using InputStream_update_notices [of st] by auto

lemma example_pull:
  "returned (process_input example_externals example_box example_controls 1500)
     = Inr (example_controls(''LEFT'' \<mapsto> 1, ''RIGHT'' \<mapsto> 0))"
  by (simp add: process_input_def example_box_def example_externals_def WAVStream_update_def
      py_slice_def slice_index_def fill_buffer_def window_label_def classify_def
      normalise_signal_def set_controls_def CONTROL_LEFT_def CONTROL_RIGHT_def Let_def)

text \<open>
  C8. Whatever the call and whatever the label, the controls a call returns hold for
  \<open>SHOOT\<close> what the controls passed in held.
\<close>

theorem shoot_untouched:
  assumes "returned (process_input ext sb controls tick) = Inr controls'"
  shows "controls' CONTROL_SHOOT = controls CONTROL_SHOOT"
proof (cases "real_of_int (buffer_timer sb + tick) / 1000 < InputStream_buffer_time (stream sb)")
  case True
  with assms show ?thesis by (simp add: process_input_gated)
next
  case False
  with assms show ?thesis
    by (auto simp: process_input_pull Let_def set_controls_shoot split: sum.splits)
qed

theorem shoot_untouched_witness:
  "returned (process_input example_externals example_box example_controls 1500)
     = Inr (example_controls(''LEFT'' \<mapsto> 1, ''RIGHT'' \<mapsto> 0))
   \<and> (example_controls(''LEFT'' \<mapsto> 1, ''RIGHT'' \<mapsto> 0)) CONTROL_SHOOT = Some 1
   \<and> example_controls CONTROL_SHOOT = Some 1"
  using shoot_untouched [OF example_pull] example_pull
  by (simp add: example_controls_def CONTROL_SHOOT_def)

text \<open>
  C6. On every poll that pulls and produces a label (the label of the classifier, or
  \<open>noise\<close> when the window is not ready), the returned controls have \<open>LEFT\<close> at 1 if the
  label is \<open>left\<close> and at 0 otherwise, and \<open>RIGHT\<close> at 1 if the label is \<open>right\<close> and
  at 0 otherwise; so \<open>noise\<close> and every unrecognised label give 0 and 0, and the two are
  never both 1.
\<close>

theorem label_sets_controls:
  assumes ng: "\<not> real_of_int (buffer_timer sb + tick) / 1000 < InputStream_buffer_time (stream sb)"
    and lab: "window_label ext (smoothing_flag sb) (buffer_size sb)
        (fill_buffer (buffer_size sb) (buffer sb) (fst (InputStream_update (stream sb))))
          = Inr label"
  shows "returned (process_input ext sb controls tick) = Inr (set_controls label controls)
    \<and> set_controls label controls CONTROL_LEFT = Some (if label = ''left'' then 1 else 0)
    \<and> set_controls label controls CONTROL_RIGHT = Some (if label = ''right'' then 1 else 0)
    \<and> \<not> (set_controls label controls CONTROL_LEFT = Some 1
          \<and> set_controls label controls CONTROL_RIGHT = Some 1)
    \<and> (\<not> buffer_size sb < int (length (fill_buffer (buffer_size sb) (buffer sb)
            (fst (InputStream_update (stream sb))))) \<longrightarrow> label = ''noise'')"
proof -
  have r: "returned (process_input ext sb controls tick) = Inr (set_controls label controls)"
    using lab by (simp add: process_input_pull [OF ng] Let_def)
  have l: "set_controls label controls CONTROL_LEFT = Some (if label = ''left'' then 1 else 0)"
    by (simp add: set_controls_def CONTROL_LEFT_def CONTROL_RIGHT_def)
  have rt: "set_controls label controls CONTROL_RIGHT = Some (if label = ''right'' then 1 else 0)"
    by (simp add: set_controls_def CONTROL_LEFT_def CONTROL_RIGHT_def)
  have n: "\<not> buffer_size sb < int (length (fill_buffer (buffer_size sb) (buffer sb)
            (fst (InputStream_update (stream sb))))) \<longrightarrow> label = ''noise''"
    using lab by (auto simp: window_label_def)
  have x: "\<not> (set_controls label controls CONTROL_LEFT = Some 1
          \<and> set_controls label controls CONTROL_RIGHT = Some 1)"
    unfolding l rt by auto
  from r l rt x n show ?thesis by blast
qed

lemmas example_simps = process_input_def example_box_def example_externals_def
  WAVStream_update_def py_slice_def slice_index_def fill_buffer_def window_label_def
  classify_def normalise_signal_def set_controls_def CONTROL_LEFT_def CONTROL_RIGHT_def Let_def

theorem label_sets_controls_witness:
  "returned (process_input example_externals example_box example_controls 1500)
     = Inr (set_controls ''left'' example_controls)
   \<and> set_controls ''left'' example_controls CONTROL_LEFT = Some 1
   \<and> set_controls ''left'' example_controls CONTROL_RIGHT = Some 0
   \<and> returned (process_input example_externals (example_box\<lparr>buffer_size := 3\<rparr>)
        example_controls 1500) = Inr (set_controls ''noise'' example_controls)
   \<and> set_controls ''noise'' example_controls CONTROL_LEFT = Some 0
   \<and> set_controls ''noise'' example_controls CONTROL_RIGHT = Some 0"
proof -
  have ng: "\<not> real_of_int (buffer_timer example_box + 1500) / 1000
      < InputStream_buffer_time (stream example_box)"
    by (simp add: example_box_def)
  have lab: "window_label example_externals (smoothing_flag example_box) (buffer_size example_box)
        (fill_buffer (buffer_size example_box) (buffer example_box)
           (fst (InputStream_update (stream example_box)))) = Inr ''left''"
    by (simp add: example_simps)
  have ng3: "\<not> real_of_int (buffer_timer (example_box\<lparr>buffer_size := 3\<rparr>) + 1500) / 1000
      < InputStream_buffer_time (stream (example_box\<lparr>buffer_size := 3\<rparr>))"
    by (simp add: example_box_def)
  have lab3: "window_label example_externals (smoothing_flag (example_box\<lparr>buffer_size := 3\<rparr>))
        (buffer_size (example_box\<lparr>buffer_size := 3\<rparr>))
        (fill_buffer (buffer_size (example_box\<lparr>buffer_size := 3\<rparr>))
           (buffer (example_box\<lparr>buffer_size := 3\<rparr>))
           (fst (InputStream_update (stream (example_box\<lparr>buffer_size := 3\<rparr>))))) = Inr ''noise''"
    by (simp add: example_simps)
  from label_sets_controls [OF ng lab, of example_controls]
    label_sets_controls [OF ng3 lab3, of example_controls]
  show ?thesis by simp
qed

section \<open>Readiness of the window\<close>

text \<open>
  C5, as stated, fails at a window of exactly \<open>buffer_size\<close> samples: the source tests
  \<open>len(self.buffer) > self.buffer_size\<close>. With \<open>buffer_size = 3\<close> and a first chunk of
  three samples, the window has 3 samples, no classification is attempted, and the
  label is \<open>noise\<close> although the model would answer \<open>left\<close>.
\<close>

theorem window_of_buffer_size_not_classified:
  "buffer (box (process_input example_externals (example_box\<lparr>buffer_size := 3\<rparr>)
      example_controls 1500)) = Some [1, 2, 3]
   \<and> buffer_size (example_box\<lparr>buffer_size := 3\<rparr>) \<le> int (length [1, 2, 3 :: real])
   \<and> attempts (events (process_input example_externals (example_box\<lparr>buffer_size := 3\<rparr>)
      example_controls 1500)) = []
   \<and> returned (process_input example_externals (example_box\<lparr>buffer_size := 3\<rparr>)
        example_controls 1500) = Inr (set_controls ''noise'' example_controls)
   \<and> \<not> (attempts (events (process_input example_externals (example_box\<lparr>buffer_size := 3\<rparr>)
          example_controls 1500)) \<noteq> [])
        = (buffer_size (example_box\<lparr>buffer_size := 3\<rparr>) \<le> int (length [1, 2, 3 :: real]))"
  by (simp add: example_simps)

text \<open>
  C5, amended. On every pull, classification is attempted, once and on the window just
  filled, exactly when the window is longer than \<open>buffer_size\<close>, and the call then
  returns the controls set from the label the classifier gives for that window (or
  raises what the classifier raises); when the window has \<open>buffer_size\<close> samples or fewer
  the classifier is not invoked and the label is \<open>noise\<close>, which sets \<open>LEFT\<close> and
  \<open>RIGHT\<close> to 0.
\<close>

theorem classify_iff_window_exceeds:
  assumes ng: "\<not> real_of_int (buffer_timer sb + tick) / 1000 < InputStream_buffer_time (stream sb)"
  shows "buffer (box (process_input ext sb controls tick)) =
           Some (fill_buffer (buffer_size sb) (buffer sb) (fst (InputStream_update (stream sb))))
    \<and> attempts (events (process_input ext sb controls tick)) =
        (if buffer_size sb < int (length (fill_buffer (buffer_size sb) (buffer sb)
              (fst (InputStream_update (stream sb)))))
         then [fill_buffer (buffer_size sb) (buffer sb) (fst (InputStream_update (stream sb)))]
         else [])
    \<and> (buffer_size sb < int (length (fill_buffer (buffer_size sb) (buffer sb)
              (fst (InputStream_update (stream sb))))) \<longrightarrow>
          returned (process_input ext sb controls tick) =
            (case classify ext (smoothing_flag sb)
                    (fill_buffer (buffer_size sb) (buffer sb)
                       (fst (InputStream_update (stream sb)))) of
               Inl e \<Rightarrow> Inl e
             | Inr label \<Rightarrow> Inr (set_controls label controls)))
    \<and> (int (length (fill_buffer (buffer_size sb) (buffer sb)
              (fst (InputStream_update (stream sb))))) \<le> buffer_size sb \<longrightarrow>
          returned (process_input ext sb controls tick) = Inr (set_controls ''noise'' controls)
          \<and> set_controls ''noise'' controls CONTROL_LEFT = Some 0
          \<and> set_controls ''noise'' controls CONTROL_RIGHT = Some 0)"
  using attempts_notices [of "stream sb"]
  by (auto simp: process_input_pull [OF ng] Let_def attempts_append window_label_def
      set_controls_def CONTROL_LEFT_def CONTROL_RIGHT_def split: sum.splits)

theorem classify_iff_window_exceeds_witness:
  "attempts (events (process_input example_externals example_box example_controls 1500))
     = [[1, 2, 3]]
   \<and> classify example_externals False [1, 2, 3] = Inr ''left''
   \<and> returned (process_input example_externals example_box example_controls 1500)
       = Inr (set_controls ''left'' example_controls)
   \<and> attempts (events (process_input example_externals (example_box\<lparr>buffer_size := 3\<rparr>)
        example_controls 1500)) = []
   \<and> returned (process_input example_externals (example_box\<lparr>buffer_size := 3\<rparr>)
        example_controls 1500) = Inr (set_controls ''noise'' example_controls)"
proof -
  have ng: "\<not> real_of_int (buffer_timer example_box + 1500) / 1000
      < InputStream_buffer_time (stream example_box)"
    by (simp add: example_box_def)
  have ng3: "\<not> real_of_int (buffer_timer (example_box\<lparr>buffer_size := 3\<rparr>) + 1500) / 1000
      < InputStream_buffer_time (stream (example_box\<lparr>buffer_size := 3\<rparr>))"
    by (simp add: example_box_def)
  have label: "classify example_externals False [1, 2, 3] = Inr ''left''"
    by (simp add: classify_def example_externals_def normalise_signal_def Let_def)
  from classify_iff_window_exceeds [OF ng, of example_externals example_controls]
    classify_iff_window_exceeds [OF ng3, of example_externals example_controls]
  show ?thesis
    by (simp add: example_box_def WAVStream_update_def py_slice_def slice_index_def
        fill_buffer_def Let_def label)
qed

section \<open>Normalisation of a flat window\<close>

lemma np_max_Some_finite:
  assumes "np_max (map np_abs xs) = Some a" and "x \<in> set xs"
  shows "\<exists>x'. x = Some x'"
proof (cases x)
  case None
  with assms(2) have "None \<in> set (map np_abs xs)" by (force simp: np_abs_def)
  with assms(1) show ?thesis by (simp add: np_max_def)
next
  case (Some x')
  then show ?thesis by simp
qed

lemma np_divide_zero: "np_divide np (Some x) (Some 0) = None"
  by (simp add: np_divide_def)

lemma map_constant: "(\<And>y. y \<in> set ys \<Longrightarrow> f y = c) \<Longrightarrow> map f ys = replicate (length ys) c"
  by (induction ys) auto

lemma normalise_flat:
  assumes "signal \<noteq> []"
    and "np_max (map np_abs (map (\<lambda>x. np_subtract np x (np_mean np signal)) signal)) = Some 0"
  shows "normalise_signal np signal = Inr (replicate (length signal) None)"
proof -
  let ?std = "map (\<lambda>x. np_subtract np x (np_mean np signal)) signal"
  have "\<And>y. y \<in> set ?std \<Longrightarrow> np_divide np y (Some 0) = None"
  proof -
    fix y assume "y \<in> set ?std"
    from np_max_Some_finite [OF assms(2) this] obtain y' where "y = Some y'" by blast
    then show "np_divide np y (Some 0) = None" by (simp add: np_divide_zero)
  qed
  then have "map (\<lambda>y. np_divide np y (Some 0)) ?std = replicate (length ?std) None"
    by (rule map_constant)
  then show ?thesis
    unfolding normalise_signal_def Let_def assms(2)
    using assms(1) by simp
qed

lemma constant_window_flat:
  assumes "np_mean np (replicate (Suc n) c) = Some c" and "fl np 0 = Some 0"
  shows "np_max (map np_abs (map (\<lambda>x. np_subtract np x (np_mean np (replicate (Suc n) c)))
           (replicate (Suc n) c))) = Some 0"
  using assms by (simp add: np_subtract_def np_abs_def np_max_def del: replicate.simps)

lemma normalise_signal_constant:
  assumes "np_mean np (replicate (Suc n) c) = Some c" and "fl np 0 = Some 0"
  shows "normalise_signal np (replicate (Suc n) c) = Inr (replicate (Suc n) None)"
  using normalise_flat [OF _ constant_window_flat [OF assms]] by simp

text \<open>
  A constant window is not always flat in doubles: when the computed mean is beside the
  constant, the centred samples are a rounding error apart from 0, the amplitude is not
  0, and every sample of the result is that error over its absolute value.
\<close>

lemma rounded_mean_not_flat:
  assumes "np_mean np [c, c, c] = Some m" and "fl np (c - m) = Some d" and "d \<noteq> 0"
    and "fl np (d / \<bar>d\<bar>) = Some q"
  shows "normalise_signal np [c, c, c] = Inr [Some q, Some q, Some q]"
  using assms
  by (simp add: normalise_signal_def np_subtract_def np_abs_def np_max_def np_divide_def Let_def)

text \<open>
  C7, as stated, fails: \<open>normalise_signal\<close> has no guard. On the all-zero window of two
  samples the mean is 0, both centred samples are 0, the amplitude is 0, and both
  samples of the result are 0 divided by 0: not numbers.
\<close>

theorem normalise_signal_zero_window:
  "normalise_signal exact_numpy [0, 0]
     = Inr [np_divide exact_numpy (Some 0) (Some 0), np_divide exact_numpy (Some 0) (Some 0)]
   \<and> np_divide exact_numpy (Some 0) (Some 0) = None"
  by (simp add: normalise_signal_def exact_numpy_def np_subtract_def np_abs_def np_max_def
      np_divide_def Let_def)

text \<open>
  C7, amended. For every non-empty window whose mean-centred signal, as the doubles
  compute it, has maximum absolute value 0 (the all-zero window, and every constant
  window whose computed mean is the constant), \<open>normalise_signal\<close> divides each centred
  sample by the amplitude 0, unguarded: it returns, without raising, a result of the
  length of the window in which no sample is a number.
\<close>

theorem normalise_signal_divides_by_zero:
  assumes "signal \<noteq> []"
    and "np_max (map np_abs (map (\<lambda>x. np_subtract np x (np_mean np signal)) signal)) = Some 0"
  shows "normalise_signal np signal =
           Inr (map (\<lambda>x. np_divide np (np_subtract np x (np_mean np signal)) (Some 0)) signal)
     \<and> normalise_signal np signal = Inr (replicate (length signal) None)"
proof -
  have "normalise_signal np signal =
           Inr (map (\<lambda>x. np_divide np (np_subtract np x (np_mean np signal)) (Some 0)) signal)"
    unfolding normalise_signal_def Let_def assms(2) using assms(1) by (simp add: comp_def)
  with normalise_flat [OF assms] show ?thesis by simp
qed

theorem normalise_signal_divides_by_zero_witness:
  "normalise_signal exact_numpy [5, 5, 5] = Inr [None, None, None]"
  using normalise_signal_divides_by_zero [of "[5, 5, 5]" exact_numpy]
  by (simp add: exact_numpy_def np_subtract_def np_abs_def np_max_def np_divide_def)


end
